theory Spec2Isabelle
  imports Main "HOL-Library.Word"
begin

section \<open>Media upload service\<close>

text \<open>
  The service of \<^verbatim>\<open>app.js\<close> stores an uploaded file in the directory \<^verbatim>\<open>uploadsDir\<close>
  under a generated name, records the name and the location in the table \<^verbatim>\<open>uploads\<close>,
  and deletes both again on request. The two route handlers are embedded together with
  the library calls they rest on: \<^verbatim>\<open>path.extname\<close> and \<^verbatim>\<open>path.join\<close> (POSIX flavour),
  \<^verbatim>\<open>Buffer.toString('hex')\<close>, the single-file middleware of multer with its disk storage,
  and the final error handler of Express. Strings are lists of characters, a buffer is a
  list of bytes. One request is processed at a time.
\<close>

type_synonym byte = "8 word"

subsection \<open>\<^verbatim>\<open>Buffer.toString('hex')\<close>\<close>

text \<open>Every byte is rendered as two lower-case hexadecimal digits, high nibble first.\<close>

definition hexDigits :: string where
  "hexDigits = ''0123456789abcdef''"

definition hexByte :: "byte \<Rightarrow> string" where
  "hexByte b = [hexDigits ! (unat b div 16), hexDigits ! (unat b mod 16)]"

definition toHex :: "byte list \<Rightarrow> string" where
  "toHex bs = concat (map hexByte bs)"

subsection \<open>\<^verbatim>\<open>path.extname\<close>\<close>

text \<open>
  The extension as Node's \<^verbatim>\<open>path.extname\<close> computes it: one scan from the last
  character to the first, over the variables of the library function. The index \<open>-1\<close>
  stands for "not seen yet", as there.
\<close>

record extScan =
  startDot :: int
  startPart :: int
  endPos :: int
  matchedSlash :: bool
  preDotState :: int

definition extInit :: extScan where
  "extInit = \<lparr>startDot = -1, startPart = 0, endPos = -1, matchedSlash = True, preDotState = 0\<rparr>"

text \<open>\<open>extLoop p n s\<close> runs the iterations \<open>i = n - 1, \<dots>, 0\<close> of the scan from state \<open>s\<close>.\<close>

fun extLoop :: "string \<Rightarrow> nat \<Rightarrow> extScan \<Rightarrow> extScan" where
  "extLoop p 0 s = s"
| "extLoop p (Suc i) s =
     (if p ! i = CHR ''/'' then
        (if \<not> matchedSlash s then s\<lparr>startPart := int i + 1\<rparr>
         else extLoop p i s)
      else
        (let s1 = (if endPos s = -1 then s\<lparr>matchedSlash := False, endPos := int i + 1\<rparr> else s);
             s2 = (if p ! i = CHR ''.'' then
                     (if startDot s1 = -1 then s1\<lparr>startDot := int i\<rparr>
                      else if preDotState s1 \<noteq> 1 then s1\<lparr>preDotState := 1\<rparr>
                      else s1)
                   else if startDot s1 \<noteq> -1 then s1\<lparr>preDotState := -1\<rparr>
                   else s1)
         in extLoop p i s2))"

text \<open>\<^verbatim>\<open>String.prototype.slice\<close> at indices that are not negative.\<close>

definition strSlice :: "string \<Rightarrow> int \<Rightarrow> int \<Rightarrow> string" where
  "strSlice p a b = take (nat b - nat a) (drop (nat a) p)"

definition extname :: "string \<Rightarrow> string" where
  "extname p =
     (let s = extLoop p (length p) extInit in
      if startDot s = -1 \<or> endPos s = -1 \<or> preDotState s = 0 \<or>
         (preDotState s = 1 \<and> startDot s = endPos s - 1 \<and> startDot s = startPart s + 1)
      then []
      else strSlice p (startDot s) (endPos s))"

text \<open>The invariant of the scan before iteration \<open>n - 1\<close>, and what holds when it stops.\<close>

definition extInv :: "string \<Rightarrow> nat \<Rightarrow> extScan \<Rightarrow> bool" where
  "extInv p n s \<longleftrightarrow>
     (matchedSlash s \<longleftrightarrow> endPos s = -1) \<and>
     (endPos s = -1 \<longrightarrow> startDot s = -1) \<and>
     (endPos s \<noteq> -1 \<longrightarrow> int n < endPos s \<and> endPos s \<le> int (length p) \<and>
        (\<forall>j. n \<le> j \<and> int j < endPos s \<longrightarrow> p ! j \<noteq> CHR ''/'')) \<and>
     (startDot s \<noteq> -1 \<longrightarrow> int n \<le> startDot s \<and> startDot s < endPos s \<and>
        p ! nat (startDot s) = CHR ''.'')"

definition extDone :: "string \<Rightarrow> extScan \<Rightarrow> bool" where
  "extDone p r \<longleftrightarrow>
     (startDot r \<noteq> -1 \<longrightarrow>
        0 \<le> startDot r \<and> startDot r < endPos r \<and> endPos r \<le> int (length p) \<and>
        p ! nat (startDot r) = CHR ''.'' \<and>
        (\<forall>j. startDot r \<le> int j \<and> int j < endPos r \<longrightarrow> p ! j \<noteq> CHR ''/''))"

subsection \<open>\<^verbatim>\<open>path.join\<close>\<close>

text \<open>
  Node joins the arguments that are not empty with \<open>/\<close> and normalises the result. The
  normalisation is modelled on the segments between the slashes: an empty segment and
  \<open>.\<close> are dropped, \<open>..\<close> removes the segment before it unless that is \<open>..\<close> itself
  or there is none, in which case it is kept for a relative path and dropped for an
  absolute one; a trailing slash is kept.
\<close>

fun splitSlash :: "string \<Rightarrow> string list" where
  "splitSlash [] = [[]]"
| "splitSlash (c # cs) =
     (if c = CHR ''/'' then [] # splitSlash cs
      else (case splitSlash cs of [] \<Rightarrow> [[c]] | s # ss \<Rightarrow> (c # s) # ss))"

fun joinSlash :: "string list \<Rightarrow> string" where
  "joinSlash [] = []"
| "joinSlash [s] = s"
| "joinSlash (s # t # ss) = s @ CHR ''/'' # joinSlash (t # ss)"

fun normalizeSegments :: "bool \<Rightarrow> string list \<Rightarrow> string list \<Rightarrow> string list" where
  "normalizeSegments allowAboveRoot res [] = res"
| "normalizeSegments allowAboveRoot res (s # ss) =
     (if s = [] \<or> s = ''.'' then normalizeSegments allowAboveRoot res ss
      else if s = ''..'' then
        (if res \<noteq> [] \<and> last res \<noteq> ''..'' then normalizeSegments allowAboveRoot (butlast res) ss
         else if allowAboveRoot then normalizeSegments allowAboveRoot (res @ [''..'']) ss
         else normalizeSegments allowAboveRoot res ss)
      else normalizeSegments allowAboveRoot (res @ [s]) ss)"

definition path_normalize :: "string \<Rightarrow> string" where
  "path_normalize p =
     (if p = [] then ''.''
      else
        (let isAbsolute = (hd p = CHR ''/'');
             trailingSeparator = (last p = CHR ''/'');
             r = joinSlash (normalizeSegments (\<not> isAbsolute) [] (splitSlash p))
         in if r = [] then (if isAbsolute then ''/'' else if trailingSeparator then ''./'' else ''.'')
            else (if isAbsolute then ''/'' else []) @ r @ (if trailingSeparator then ''/'' else [])))"

definition path_join :: "string list \<Rightarrow> string" where
  "path_join args =
     (let joined = filter (\<lambda>arg. arg \<noteq> []) args
      in if joined = [] then ''.'' else path_normalize (joinSlash joined))"

text \<open>A segment that normalisation leaves alone.\<close>

definition plainSegment :: "string \<Rightarrow> bool" where
  "plainSegment s \<longleftrightarrow> s \<noteq> [] \<and> s \<noteq> ''.'' \<and> s \<noteq> ''..''"

definition goodSegment :: "string \<Rightarrow> bool" where
  "goodSegment s \<longleftrightarrow> plainSegment s \<and> CHR ''/'' \<notin> set s"

text \<open>
  An absolute path in normal form below the root, which is what \<^verbatim>\<open>path.join(__dirname, 'uploads')\<close>
  gives for \<^verbatim>\<open>uploadsDir\<close>.
\<close>

definition absNormal :: "string \<Rightarrow> bool" where
  "absNormal d \<longleftrightarrow> d \<noteq> [] \<and> hd d = CHR ''/'' \<and> list_all plainSegment (splitSlash (tl d))"

text \<open>A normalised absolute path lies inside the directory \<open>d\<close> when it continues \<open>d/\<close>.\<close>

definition insideDir :: "string \<Rightarrow> string \<Rightarrow> bool" where
  "insideDir d p \<longleftrightarrow> length d + 1 < length p \<and> take (length d + 1) p = d @ ''/''"

subsection \<open>The file system, the table and the requests\<close>

text \<open>
  \<open>files\<close> are the files on disk by path, \<open>denied\<close> the paths whose removal the system
  refuses, \<open>rows\<close> the table \<^verbatim>\<open>uploads\<close> as pairs of \<^verbatim>\<open>file_name\<close> and \<^verbatim>\<open>file_path\<close> in the
  order of insertion, and \<open>events\<close> the storage actions in the order they were carried out.
\<close>

datatype event =
    FsWrite string
  | FsWriteFailed string
  | FsUnlink string
  | FsUnlinkFailed string
  | DbInsert string string
  | DbInsertFailed string string
  | DbDelete string
  | DbDeleteFailed string

record world =
  files :: "string \<rightharpoonup> byte list"
  denied :: "string \<Rightarrow> bool"
  rows :: "(string \<times> string) list"
  events :: "event list"

text \<open>
  What one request meets and does not control: the bytes that \<^verbatim>\<open>crypto.randomBytes(16)\<close>
  returns, a failure of the write stream (when the file is opened, or after some bytes),
  and a failure of the query.
\<close>

datatype diskFault = OpenFails string | WriteFails string nat

record env =
  randomBytes :: "byte list"
  diskFault :: "diskFault option"
  queryError :: "string option"

datatype error = Error string | MulterError string

fun message :: "error \<Rightarrow> string" where
  "message (Error m) = m"
| "message (MulterError m) = m"

text \<open>
  An exception that Node raises synchronously: the \<^verbatim>\<open>TypeError\<close> with the code
  \<^verbatim>\<open>ERR_INVALID_ARG_VALUE\<close> for a path that holds a NUL byte, with the refused value.
\<close>

datatype exception = ERR_INVALID_ARG_VALUE string

text \<open>
  The write stream of the disk storage: the file is complete, or an error is reported.
  The definition covers the paths without a NUL byte; Node refuses the others before the
  file system is reached, and the statement below on when an upload succeeds excludes them.
\<close>

definition writeStream :: "env \<Rightarrow> string \<Rightarrow> byte list \<Rightarrow> world \<Rightarrow> error option \<times> world" where
  "writeStream e p bytes w =
     (case diskFault e of
        None \<Rightarrow> (None, w\<lparr>files := (files w)(p \<mapsto> bytes), events := events w @ [FsWrite p]\<rparr>)
      | Some (OpenFails m) \<Rightarrow> (Some (Error m), w\<lparr>events := events w @ [FsWriteFailed p]\<rparr>)
      | Some (WriteFails m n) \<Rightarrow>
          (Some (Error m),
           w\<lparr>files := (files w)(p \<mapsto> take n bytes), events := events w @ [FsWriteFailed p]\<rparr>))"

text \<open>A path between single quotes, as the messages of the file system errors show it.\<close>

definition quoted :: "string \<Rightarrow> string" where
  "quoted p = CHR 0x27 # p @ [CHR 0x27]"

text \<open>
  \<^verbatim>\<open>fs.unlink\<close>: for a path with a NUL byte it throws at once and never calls its callback
  (\<open>Inl\<close>); otherwise the callback gets the error of the file system, if any (\<open>Inr\<close>).
\<close>

definition unlink :: "string \<Rightarrow> world \<Rightarrow> (exception + error option) \<times> world" where
  "unlink p w =
     (if CHR 0x00 \<in> set p then (Inl (ERR_INVALID_ARG_VALUE p), w)
      else if files w p = None then
        (Inr (Some (Error (''ENOENT: no such file or directory, unlink '' @ quoted p))),
         w\<lparr>events := events w @ [FsUnlinkFailed p]\<rparr>)
      else if denied w p then
        (Inr (Some (Error (''EACCES: permission denied, unlink '' @ quoted p))),
         w\<lparr>events := events w @ [FsUnlinkFailed p]\<rparr>)
      else (Inr None, w\<lparr>files := (files w)(p := None), events := events w @ [FsUnlink p]\<rparr>))"

text \<open>
  \<^verbatim>\<open>pool.query\<close> with the two statements of the service; the delete removes the rows
  whose \<^verbatim>\<open>file_name\<close> equals the parameter.
\<close>

definition query_insert :: "env \<Rightarrow> string \<Rightarrow> string \<Rightarrow> world \<Rightarrow> error option \<times> world" where
  "query_insert e name p w =
     (case queryError e of
        Some m \<Rightarrow> (Some (Error m), w\<lparr>events := events w @ [DbInsertFailed name p]\<rparr>)
      | None \<Rightarrow> (None, w\<lparr>rows := rows w @ [(name, p)], events := events w @ [DbInsert name p]\<rparr>))"

definition query_delete :: "env \<Rightarrow> string \<Rightarrow> world \<Rightarrow> error option \<times> world" where
  "query_delete e name w =
     (case queryError e of
        Some m \<Rightarrow> (Some (Error m), w\<lparr>events := events w @ [DbDeleteFailed name]\<rparr>)
      | None \<Rightarrow>
          (None, w\<lparr>rows := filter (\<lambda>r. fst r \<noteq> name) (rows w), events := events w @ [DbDelete name]\<rparr>))"

text \<open>The bodies the service sends, and the page of the final handler of Express.\<close>

datatype body =
    ErrorJson string
  | ErrorDetailsJson string string
  | MessageJson string
  | UploadJson string string string string
  | DefaultErrorPage error

record response =
  status :: nat
  body :: body

record filePart =
  fieldname :: string
  originalname :: string
  mimetype :: string
  content :: "byte list"

record request =
  protocol :: string
  host :: "string option"
  part :: "filePart option"

text \<open>\<^verbatim>\<open>req.file\<close> as far as the handler reads it.\<close>

record multerFile =
  filename :: string
  path :: string

subsection \<open>The upload middleware\<close>

text \<open>The content directory, from the directory \<^verbatim>\<open>__dirname\<close> of the script.\<close>

definition uploadsDir :: "string \<Rightarrow> string" where
  "uploadsDir dirname = path_join [dirname, ''uploads'']"

definition storage_destination :: "string \<Rightarrow> string" where
  "storage_destination dirname = uploadsDir dirname"

text \<open>
  \<open>uniqueSuffix\<close> is the hexadecimal rendering of the result of \<^verbatim>\<open>crypto.randomBytes(16)\<close>,
  here the argument \<open>rb\<close>.
\<close>

definition storage_filename :: "byte list \<Rightarrow> string \<Rightarrow> string" where
  "storage_filename rb original =
     (let uniqueSuffix = toHex rb;
          fileExtension = extname original
      in uniqueSuffix @ fileExtension)"

definition allowedTypes :: "string list" where
  "allowedTypes =
     [''image/jpeg'', ''image/png'', ''video/mp4'', ''video/x-msvideo'', ''video/quicktime'',
      ''audio/mpeg'']"

definition fileFilter :: "filePart \<Rightarrow> error + bool" where
  "fileFilter file =
     (if mimetype file \<in> set allowedTypes then Inr True
      else Inl (Error ''Invalid file type. Allowed types: JPEG, PNG, MP4, AVI, MOV, MPEG.''))"

text \<open>
  The handlers below take the directory of the script as their first argument. The disk
  storage of multer: destination, file name, then the write to the joined path.
\<close>

definition handleFile :: "string \<Rightarrow> env \<Rightarrow> filePart \<Rightarrow> world \<Rightarrow> (error + multerFile) \<times> world" where
  "handleFile dirname e file w =
     (let destination = storage_destination dirname;
          name = storage_filename (randomBytes e) (originalname file);
          finalPath = path_join [destination, name]
      in case writeStream e finalPath (content file) w of
           (Some err, w') \<Rightarrow> (Inl err, w')
         | (None, w') \<Rightarrow> (Inr \<lparr>filename = name, path = finalPath\<rparr>, w'))"

text \<open>
  \<^verbatim>\<open>upload.single('file')\<close>: a request without a file part goes on with no \<^verbatim>\<open>req.file\<close>,
  and so does one whose part has no file name, which multer skips; a file in another
  field is an error; the filter runs before the storage; an error goes to \<^verbatim>\<open>next(err)\<close>
  and the route handler is skipped.
\<close>

definition upload_single ::
  "string \<Rightarrow> env \<Rightarrow> filePart option \<Rightarrow> world \<Rightarrow> (error + multerFile option) \<times> world" where
  "upload_single dirname e fp w =
     (case fp of
        None \<Rightarrow> (Inr None, w)
      | Some file \<Rightarrow>
          if originalname file = [] then (Inr None, w)
          else if fieldname file \<noteq> ''file'' then (Inl (MulterError ''Unexpected field''), w)
          else
            (case fileFilter file of
               Inl err \<Rightarrow> (Inl err, w)
             | Inr False \<Rightarrow> (Inr None, w)
             | Inr True \<Rightarrow>
                 (case handleFile dirname e file w of
                    (Inl err, w') \<Rightarrow> (Inl err, w')
                  | (Inr f, w') \<Rightarrow> (Inr (Some f), w'))))"

subsection \<open>The handlers\<close>

definition handleError :: "error \<Rightarrow> response" where
  "handleError err = \<lparr>status = 500, body = ErrorDetailsJson ''Internal Server Error'' (message err)\<rparr>"

text \<open>
  The service installs no error middleware, so an error passed to \<^verbatim>\<open>next\<close> reaches the
  final handler of Express; the errors above carry no status of their own and get 500.
\<close>

definition defaultErrorHandler :: "error \<Rightarrow> response" where
  "defaultErrorHandler err = \<lparr>status = 500, body = DefaultErrorPage err\<rparr>"

text \<open>A value inside a template literal: a header that is absent reads \<^verbatim>\<open>undefined\<close>.\<close>

definition templateValue :: "string option \<Rightarrow> string" where
  "templateValue v = (case v of None \<Rightarrow> ''undefined'' | Some s \<Rightarrow> s)"

definition post_media_handler ::
  "env \<Rightarrow> request \<Rightarrow> multerFile option \<Rightarrow> world \<Rightarrow> response \<times> world" where
  "post_media_handler e req file w =
     (case file of
        None \<Rightarrow> (\<lparr>status = 400, body = ErrorJson ''No file uploaded''\<rparr>, w)
      | Some f \<Rightarrow>
          (let filePath = path f;
               fileUrl = protocol req @ ''://'' @ templateValue (host req) @ ''/uploads/'' @ filename f
           in case query_insert e (filename f) filePath w of
                (Some err, w') \<Rightarrow> (handleError err, w')
              | (None, w') \<Rightarrow>
                  (\<lparr>status = 200,
                    body = UploadJson ''File uploaded successfully'' (filename f) filePath fileUrl\<rparr>,
                   w')))"

text \<open>\<^verbatim>\<open>POST /media\<close>: the middleware, then the handler.\<close>

definition post_media :: "string \<Rightarrow> env \<Rightarrow> request \<Rightarrow> world \<Rightarrow> response \<times> world" where
  "post_media dirname e req w =
     (case upload_single dirname e (part req) w of
        (Inl err, w') \<Rightarrow> (defaultErrorHandler err, w')
      | (Inr file, w') \<Rightarrow> post_media_handler e req file w')"

text \<open>
  \<^verbatim>\<open>DELETE /media/:filename\<close>; \<open>param\<close> is \<^verbatim>\<open>req.params.filename\<close>, the decoded path
  segment, and \<^verbatim>\<open>!filename\<close> holds of an absent and of an empty one. The result is the
  response the handler sends (\<open>Inr\<close>), or the exception that leaves it before any response
  is sent (\<open>Inl\<close>): the call of \<^verbatim>\<open>fs.unlink\<close> stands outside every \<^verbatim>\<open>try\<close>.
\<close>

definition delete_media ::
  "string \<Rightarrow> env \<Rightarrow> string option \<Rightarrow> world \<Rightarrow> (exception + response) \<times> world" where
  "delete_media dirname e param w =
     (case param of
        None \<Rightarrow> (Inr \<lparr>status = 400, body = ErrorJson ''Filename is required''\<rparr>, w)
      | Some name \<Rightarrow>
          if name = [] then (Inr \<lparr>status = 400, body = ErrorJson ''Filename is required''\<rparr>, w)
          else
            (let filePath = path_join [uploadsDir dirname, name]
             in case unlink filePath w of
                  (Inl exn, w') \<Rightarrow> (Inl exn, w')
                | (Inr (Some err), w') \<Rightarrow>
                    (Inr \<lparr>status = 404, body = ErrorDetailsJson ''File not found'' (message err)\<rparr>,
                     w')
                | (Inr None, w') \<Rightarrow>
                    (case query_delete e name w' of
                       (Some err, w'') \<Rightarrow> (Inr (handleError err), w'')
                     | (None, w'') \<Rightarrow>
                         (Inr \<lparr>status = 200, body = MessageJson ''File deleted successfully''\<rparr>,
                          w''))))"

subsection \<open>A deployment to evaluate the service on\<close>

definition exDir :: string where
  "exDir = ''/srv/app''"

definition exWorld :: world where
  "exWorld =
     \<lparr>files = [''/srv/app/app.js'' \<mapsto> [1, 2, 3], ''/srv/app/uploads/locked.png'' \<mapsto> [4],
        ''/srv/app/uploads/a.png'' \<mapsto> [5]],
      denied = (\<lambda>p. p = ''/srv/app/uploads/locked.png''),
      rows = [(''locked.png'', ''/srv/app/uploads/locked.png''), (''a.png'', ''/srv/app/uploads/a.png'')],
      events = []\<rparr>"

definition exBytes :: "byte list" where
  "exBytes = [0, 1, 2, 3, 4, 5, 6, 7, 8, 9, 10, 11, 12, 13, 14, 255]"

definition exEnv :: env where
  "exEnv = \<lparr>randomBytes = exBytes, diskFault = None, queryError = None\<rparr>"

definition exPart :: "string \<Rightarrow> filePart" where
  "exPart mt = \<lparr>fieldname = ''file'', originalname = ''Photo.JPG'', mimetype = mt, content = [7, 8]\<rparr>"

definition exRequest :: "filePart option \<Rightarrow> request" where
  "exRequest fp = \<lparr>protocol = ''http'', host = Some ''localhost:3001'', part = fp\<rparr>"

text \<open>The name of \<^verbatim>\<open>DELETE /media/a%00.png\<close> after decoding.\<close>

definition exNulName :: string where
  "exNulName = CHR ''a'' # CHR 0x00 # ''.png''"

section \<open>Properties of the library functions\<close>

subsection \<open>Hexadecimal rendering\<close>

lemma length_hexByte: "length (hexByte b) = 2"
  by (simp add: hexByte_def)

lemma length_toHex: "length (toHex bs) = 2 * length bs"
  by (induction bs) (simp_all add: toHex_def length_hexByte)

lemma unat_byte_less: "unat (b :: byte) < 256"
  using unsigned_less [of b] by simp

lemma nibbles_less: "unat (b :: byte) div 16 < 16" "unat b mod 16 < 16"
  using unat_byte_less [of b] by simp_all

lemma length_hexDigits: "length hexDigits = 16"
  by (simp add: hexDigits_def)

lemma distinct_hexDigits: "distinct hexDigits"
  by (simp add: hexDigits_def)

lemma set_hexByte: "set (hexByte b) \<subseteq> set hexDigits"
  by (simp add: hexByte_def nibbles_less length_hexDigits)

lemma set_toHex: "set (toHex bs) \<subseteq> set hexDigits"
  using set_hexByte by (auto simp: toHex_def)

lemma slash_notin_hexDigits: "CHR ''/'' \<notin> set hexDigits"
  by (simp add: hexDigits_def)

lemma dot_notin_hexDigits: "CHR ''.'' \<notin> set hexDigits"
  by (simp add: hexDigits_def)

lemma hexByte_inject: "hexByte a = hexByte b \<Longrightarrow> a = b"
proof -
  assume h: "hexByte a = hexByte b"
  have d: "unat a div 16 = unat b div 16"
    using h nibbles_less [of a] nibbles_less [of b]
    by (simp add: hexByte_def nth_eq_iff_index_eq [OF distinct_hexDigits] length_hexDigits)
  have m: "unat a mod 16 = unat b mod 16"
    using h nibbles_less [of a] nibbles_less [of b]
    by (simp add: hexByte_def nth_eq_iff_index_eq [OF distinct_hexDigits] length_hexDigits)
  have "unat a = unat b"
    using d m by (metis div_mult_mod_eq)
  then show ?thesis by (simp add: word_unat_eq_iff)
qed

lemma toHex_Cons: "toHex (b # bs) = hexByte b @ toHex bs"
  by (simp add: toHex_def)

lemma toHex_inject: "toHex xs = toHex ys \<Longrightarrow> xs = ys"
proof (induction xs arbitrary: ys)
  case Nil
  then have "length (toHex ys) = 0" by (simp add: toHex_def)
  then show ?case by (simp add: length_toHex)
next
  case (Cons x xs)
  then have "length (toHex ys) = 2 * Suc (length xs)"
    by (metis length_toHex length_Cons)
  then obtain y ys' where ys: "ys = y # ys'"
    by (cases ys) (simp_all add: length_toHex)
  from Cons.prems have "hexByte x @ toHex xs = hexByte y @ toHex ys'"
    by (simp add: ys toHex_Cons)
  then have "hexByte x = hexByte y \<and> toHex xs = toHex ys'"
    by (simp add: length_hexByte)
  with Cons.IH show ?case by (simp add: ys hexByte_inject)
qed

subsection \<open>Joining paths\<close>

lemma splitSlash_not_Nil: "splitSlash s \<noteq> []"
  by (induction s) (auto split: list.splits)

lemma splitSlash_append: "splitSlash (a @ CHR ''/'' # b) = splitSlash a @ splitSlash b"
  by (induction a) (auto split: list.splits simp: splitSlash_not_Nil)

lemma splitSlash_plain: "CHR ''/'' \<notin> set s \<Longrightarrow> splitSlash s = [s]"
  by (induction s) auto

lemma joinSlash_Cons: "ss \<noteq> [] \<Longrightarrow> joinSlash (s # ss) = s @ CHR ''/'' # joinSlash ss"
  by (cases ss) simp_all

lemma joinSlash_splitSlash: "joinSlash (splitSlash s) = s"
proof (induction s)
  case Nil
  show ?case by simp
next
  case (Cons c cs)
  show ?case
  proof (cases "c = CHR ''/''")
    case True
    with Cons show ?thesis by (simp add: joinSlash_Cons splitSlash_not_Nil)
  next
    case False
    obtain t ts where sp: "splitSlash cs = t # ts"
      using splitSlash_not_Nil [of cs] by (cases "splitSlash cs") auto
    with Cons False show ?thesis
      by (cases ts) auto
  qed
qed

lemma joinSlash_snoc: "ss \<noteq> [] \<Longrightarrow> joinSlash (ss @ [s]) = joinSlash ss @ CHR ''/'' # s"
  by (induction ss rule: joinSlash.induct) simp_all

lemma normalizeSegments_plain:
  "list_all plainSegment ss \<Longrightarrow> normalizeSegments a res ss = res @ ss"
  by (induction ss arbitrary: res) (simp_all add: plainSegment_def)

lemma joinSlash_not_Nil: "ss \<noteq> [] \<Longrightarrow> list_all plainSegment ss \<Longrightarrow> joinSlash ss \<noteq> []"
  by (induction ss rule: joinSlash.induct) (simp_all add: plainSegment_def)

lemma path_normalize_abs:
  "p \<noteq> [] \<Longrightarrow> hd p = CHR ''/'' \<Longrightarrow> last p \<noteq> CHR ''/'' \<Longrightarrow>
   joinSlash (normalizeSegments False [] (splitSlash p)) = r \<Longrightarrow> r \<noteq> [] \<Longrightarrow>
   path_normalize p = CHR ''/'' # r"
  by (simp add: path_normalize_def Let_def)

lemma path_join_plain:
  assumes d: "absNormal d" and s: "plainSegment s" and ns: "CHR ''/'' \<notin> set s"
  shows "path_join [d, s] = d @ CHR ''/'' # s"
proof -
  from d obtain r where dr: "d = CHR ''/'' # r" and pl: "list_all plainSegment (splitSlash r)"
    by (cases d) (auto simp: absNormal_def)
  from s have sne: "s \<noteq> []" by (simp add: plainSegment_def)
  let ?j = "d @ CHR ''/'' # s"
  have j: "joinSlash [d, s] = ?j" by simp
  have sp: "splitSlash ?j = [] # splitSlash r @ [s]"
    using ns by (simp add: dr splitSlash_append splitSlash_plain)
  have nz: "normalizeSegments False [] (splitSlash ?j) = splitSlash r @ [s]"
    using pl s by (simp add: sp normalizeSegments_plain)
  have js: "joinSlash (splitSlash r @ [s]) = r @ CHR ''/'' # s"
    by (simp add: joinSlash_snoc splitSlash_not_Nil joinSlash_splitSlash)
  have lastj: "last ?j \<noteq> CHR ''/''"
    using sne ns by (metis last_appendR last_ConsR last_in_set list.distinct(1))
  have hdj: "hd ?j = CHR ''/''" and jne: "?j \<noteq> []"
    by (simp_all add: dr)
  have "joinSlash (normalizeSegments False [] (splitSlash ?j)) = r @ CHR ''/'' # s"
    by (simp only: nz js)
  then have "path_normalize ?j = CHR ''/'' # r @ CHR ''/'' # s"
    using lastj hdj jne by (intro path_normalize_abs) simp_all
  then have "path_normalize ?j = ?j"
    by (simp add: dr)
  moreover have "d \<noteq> []" using dr by simp
  ultimately show ?thesis
    using sne by (simp add: path_join_def)
qed

lemma splitSlash_no_slash: "s \<in> set (splitSlash p) \<Longrightarrow> CHR ''/'' \<notin> set s"
proof (induction p arbitrary: s)
  case Nil
  then show ?case by simp
next
  case (Cons c cs)
  obtain t ts where sp: "splitSlash cs = t # ts"
    using splitSlash_not_Nil [of cs] by (cases "splitSlash cs") auto
  from Cons show ?case
    by (auto simp: sp split: if_splits)
qed

lemma normalizeSegments_append:
  "normalizeSegments a res (xs @ ys) = normalizeSegments a (normalizeSegments a res xs) ys"
  by (induction xs arbitrary: res) auto

lemma list_all_butlast: "list_all P xs \<Longrightarrow> list_all P (butlast xs)"
  by (induction xs) simp_all

lemma normalizeSegments_good:
  "list_all goodSegment res \<Longrightarrow> \<forall>s \<in> set ss. CHR ''/'' \<notin> set s \<Longrightarrow>
   list_all goodSegment (normalizeSegments False res ss)"
proof (induction ss arbitrary: res)
  case Nil
  then show ?case by simp
next
  case (Cons s ss)
  then show ?case
    by (simp add: list_all_butlast goodSegment_def plainSegment_def)
qed

lemma splitSlash_joinSlash:
  "ss \<noteq> [] \<Longrightarrow> \<forall>s \<in> set ss. CHR ''/'' \<notin> set s \<Longrightarrow> splitSlash (joinSlash ss) = ss"
proof (induction ss rule: joinSlash.induct)
  case 1
  then show ?case by simp
next
  case (2 s)
  then show ?case by (simp add: splitSlash_plain)
next
  case (3 s t ss)
  then show ?case by (simp add: splitSlash_append splitSlash_plain)
qed

lemma absNormal_uploadsDir:
  assumes "dirname \<noteq> []" and "hd dirname = CHR ''/''"
  shows "absNormal (uploadsDir dirname)"
proof -
  let ?j = "dirname @ ''/uploads''"
  define r where "r = normalizeSegments False [] (splitSlash dirname)"
  have g: "list_all goodSegment r"
    unfolding r_def by (rule normalizeSegments_good) (simp_all add: splitSlash_no_slash)
  have u: "goodSegment ''uploads''"
    by (simp add: goodSegment_def plainSegment_def)
  have sp: "splitSlash ?j = splitSlash dirname @ [''uploads'']"
    using splitSlash_append [of dirname "''uploads''"] by (simp add: splitSlash_plain)
  have nz: "normalizeSegments False [] (splitSlash ?j) = r @ [''uploads'']"
    by (simp add: sp normalizeSegments_append r_def plainSegment_def)
  have gs: "list_all goodSegment (r @ [''uploads''])"
    using g u by simp
  then have ns: "\<forall>s \<in> set (r @ [''uploads'']). CHR ''/'' \<notin> set s"
    and pl: "list_all plainSegment (r @ [''uploads''])"
    by (simp_all add: goodSegment_def list_all_iff)
  have ne: "joinSlash (r @ [''uploads'']) \<noteq> []"
    using pl by (intro joinSlash_not_Nil) simp_all
  have "path_normalize ?j = CHR ''/'' # joinSlash (r @ [''uploads''])"
    using assms ne by (intro path_normalize_abs) (simp_all add: nz)
  then have "uploadsDir dirname = CHR ''/'' # joinSlash (r @ [''uploads''])"
    using assms by (simp add: uploadsDir_def path_join_def)
  moreover have "splitSlash (joinSlash (r @ [''uploads''])) = r @ [''uploads'']"
    using ns by (intro splitSlash_joinSlash) simp_all
  ultimately show ?thesis
    using pl by (simp add: absNormal_def)
qed

subsection \<open>The extension\<close>

lemma extInv_init: "extInv p (length p) extInit"
  by (simp add: extInv_def extInit_def)

lemma extInv_done: "extInv p n s \<Longrightarrow> extDone p (s\<lparr>startPart := k\<rparr>)"
  by (auto simp: extInv_def extDone_def)

lemma extInv_done0: "extInv p n s \<Longrightarrow> extDone p s"
  by (auto simp: extInv_def extDone_def)

lemma extInv_slash: "extInv p (Suc i) s \<Longrightarrow> matchedSlash s \<Longrightarrow> extInv p i s"
  by (auto simp: extInv_def)

lemma le_Suc_cases: "i \<le> j \<Longrightarrow> j = i \<or> Suc i \<le> j"
  by arith

lemma extInv_end:
  "extInv p (Suc i) s \<Longrightarrow> i < length p \<Longrightarrow> p ! i \<noteq> CHR ''/'' \<Longrightarrow>
   extInv p i (if endPos s = -1 then s\<lparr>matchedSlash := False, endPos := int i + 1\<rparr> else s)"
  by (auto simp: extInv_def dest: le_Suc_cases)

lemma extInv_dot:
  "extInv p i s \<Longrightarrow> endPos s \<noteq> -1 \<Longrightarrow> p ! i = CHR ''.'' \<Longrightarrow>
   extInv p i (if startDot s = -1 then s\<lparr>startDot := int i\<rparr>
                  else if preDotState s \<noteq> 1 then s\<lparr>preDotState := 1\<rparr> else s)"
  by (auto simp: extInv_def)

lemma extInv_pre: "extInv p i s \<Longrightarrow> extInv p i (s\<lparr>preDotState := k\<rparr>)"
  by (auto simp: extInv_def)

lemma extLoop_done: "extInv p n s \<Longrightarrow> n \<le> length p \<Longrightarrow> extDone p (extLoop p n s)"
proof (induction n arbitrary: s)
  case 0
  then show ?case by (simp add: extInv_done0)
next
  case (Suc i)
  show ?case
  proof (cases "p ! i = CHR ''/''")
    case True
    with Suc show ?thesis
      by (cases "matchedSlash s") (simp_all add: extInv_slash extInv_done)
  next
    case False
    define s1 where "s1 = (if endPos s = -1 then s\<lparr>matchedSlash := False, endPos := int i + 1\<rparr> else s)"
    define s2 where "s2 = (if p ! i = CHR ''.'' then
                     (if startDot s1 = -1 then s1\<lparr>startDot := int i\<rparr>
                      else if preDotState s1 \<noteq> 1 then s1\<lparr>preDotState := 1\<rparr>
                      else s1)
                   else if startDot s1 \<noteq> -1 then s1\<lparr>preDotState := -1\<rparr>
                   else s1)"
    have i1: "extInv p i s1"
      unfolding s1_def using Suc.prems False by (intro extInv_end) simp_all
    have e1: "endPos s1 \<noteq> -1"
      by (simp add: s1_def)
    have i2: "extInv p i s2"
      unfolding s2_def using i1 e1 by (simp add: extInv_dot extInv_pre)
    have "extLoop p (Suc i) s = extLoop p i s2"
      using False by (simp add: s1_def s2_def Let_def)
    with Suc.IH [OF i2] Suc.prems show ?thesis by simp
  qed
qed

lemma extname_cases:
  "extname p = [] \<or>
   (\<exists>a b. a < b \<and> b \<le> length p \<and> extname p = take (b - a) (drop a p) \<and>
      p ! a = CHR ''.'' \<and> (\<forall>j. a \<le> j \<and> j < b \<longrightarrow> p ! j \<noteq> CHR ''/''))"
proof -
  define r where "r = extLoop p (length p) extInit"
  have d: "extDone p r"
    unfolding r_def by (rule extLoop_done [OF extInv_init]) simp
  show ?thesis
  proof (cases "extname p = []")
    case True
    then show ?thesis by simp
  next
    case False
    then have sd: "startDot r \<noteq> -1" and ex: "extname p = strSlice p (startDot r) (endPos r)"
      by (auto simp: extname_def Let_def r_def split: if_splits)
    from d sd have pr: "0 \<le> startDot r" "startDot r < endPos r" "endPos r \<le> int (length p)"
      "p ! nat (startDot r) = CHR ''.''"
      "\<forall>j. startDot r \<le> int j \<and> int j < endPos r \<longrightarrow> p ! j \<noteq> CHR ''/''"
      by (simp_all add: extDone_def)
    have "nat (startDot r) < nat (endPos r) \<and> nat (endPos r) \<le> length p \<and>
      extname p = take (nat (endPos r) - nat (startDot r)) (drop (nat (startDot r)) p) \<and>
      p ! nat (startDot r) = CHR ''.'' \<and>
      (\<forall>j. nat (startDot r) \<le> j \<and> j < nat (endPos r) \<longrightarrow> p ! j \<noteq> CHR ''/'')"
    proof (intro conjI allI impI)
      fix j assume j: "nat (startDot r) \<le> j \<and> j < nat (endPos r)"
      then have "startDot r \<le> int j \<and> int j < endPos r" using pr(1) by linarith
      with pr(5) show "p ! j \<noteq> CHR ''/''" by blast
    qed (use pr ex in \<open>simp_all add: strSlice_def\<close>)
    then show ?thesis by blast
  qed
qed

lemma extname_no_slash: "CHR ''/'' \<notin> set (extname p)"
proof -
  from extname_cases [of p] show ?thesis
  proof
    assume "extname p = []" then show ?thesis by simp
  next
    assume "\<exists>a b. a < b \<and> b \<le> length p \<and> extname p = take (b - a) (drop a p) \<and>
      p ! a = CHR ''.'' \<and> (\<forall>j. a \<le> j \<and> j < b \<longrightarrow> p ! j \<noteq> CHR ''/'')"
    then obtain a b where ab: "a < b" "b \<le> length p" "extname p = take (b - a) (drop a p)"
      "\<forall>j. a \<le> j \<and> j < b \<longrightarrow> p ! j \<noteq> CHR ''/''" by blast
    show ?thesis
    proof
      assume "CHR ''/'' \<in> set (extname p)"
      then obtain k where k: "k < length (extname p)" "extname p ! k = CHR ''/''"
        by (auto simp: in_set_conv_nth)
      from k ab have "k < b - a" by simp
      with k ab have "p ! (a + k) = CHR ''/''" by simp
      moreover have "a \<le> a + k \<and> a + k < b" using \<open>k < b - a\<close> by arith
      ultimately show False using ab(4) by blast
    qed
  qed
qed

lemma extname_dot: "extname p = [] \<or> hd (extname p) = CHR ''.''"
  using extname_cases [of p] by (auto simp: hd_conv_nth hd_drop_conv_nth)

lemma extname_piece: "\<exists>a b. p = a @ extname p @ b"
proof (cases "extname p = []")
  case True then show ?thesis by auto
next
  case False
  then have "extname p = take (nat (endPos (extLoop p (length p) extInit)) - nat (startDot (extLoop p (length p) extInit))) (drop (nat (startDot (extLoop p (length p) extInit))) p)"
    by (auto simp: extname_def Let_def strSlice_def split: if_splits)
  then show ?thesis
    by (metis append_take_drop_id)
qed

text \<open>The extension of a name of the plain form \<open>base.ext\<close>.\<close>

lemma extLoop_frozen:
  "startDot s \<noteq> -1 \<Longrightarrow> endPos s \<noteq> -1 \<Longrightarrow> preDotState s \<noteq> 0 \<Longrightarrow>
   startDot (extLoop p n s) = startDot s \<and> endPos (extLoop p n s) = endPos s \<and>
   preDotState (extLoop p n s) \<noteq> 0"
  by (induction n arbitrary: s) (auto simp: Let_def)

lemma extLoop_plain:
  "\<forall>j. m \<le> j \<and> j < m + k \<longrightarrow> p ! j \<noteq> CHR ''/'' \<and> p ! j \<noteq> CHR ''.'' \<Longrightarrow>
   startDot s = -1 \<Longrightarrow>
   extLoop p (m + k) s =
     extLoop p m (if 0 < k \<and> endPos s = -1 then s\<lparr>matchedSlash := False, endPos := int (m + k)\<rparr> else s)"
proof (induction k arbitrary: s)
  case 0
  then show ?case by simp
next
  case (Suc k)
  define s1 where "s1 = (if endPos s = -1 then s\<lparr>matchedSlash := False, endPos := int (m + k) + 1\<rparr> else s)"
  have c: "p ! (m + k) \<noteq> CHR ''/''" "p ! (m + k) \<noteq> CHR ''.''"
    using Suc.prems(1) by simp_all
  have sd: "startDot s1 = -1" and ep: "endPos s1 \<noteq> -1"
    using Suc.prems(2) by (simp_all add: s1_def)
  have "extLoop p (m + Suc k) s = extLoop p (m + k) s1"
    using c sd by (simp add: s1_def Let_def)
  also have "\<dots> = extLoop p m s1"
    using Suc.IH [of s1] Suc.prems(1) sd ep by simp
  finally show ?case
    by (simp add: s1_def add.commute)
qed

lemma extname_simple:
  assumes b: "base \<noteq> []" "last base \<noteq> CHR ''/''"
    and e: "e \<noteq> []" "CHR ''.'' \<notin> set e" "CHR ''/'' \<notin> set e"
  shows "extname (base @ CHR ''.'' # e) = CHR ''.'' # e"
proof -
  let ?p = "base @ CHR ''.'' # e"
  let ?m = "Suc (length base)"
  obtain b' where lb: "length base = Suc b'"
    using b(1) by (cases base) auto
  have lp: "length ?p = ?m + length e" by simp
  have plain: "\<forall>j. ?m \<le> j \<and> j < ?m + length e \<longrightarrow> ?p ! j \<noteq> CHR ''/'' \<and> ?p ! j \<noteq> CHR ''.''"
  proof (intro allI impI)
    fix j assume j: "?m \<le> j \<and> j < ?m + length e"
    then have "?p ! j = e ! (j - ?m)"
      by (simp add: nth_append nth_Cons')
    moreover have "j - ?m < length e" using j by arith
    ultimately show "?p ! j \<noteq> CHR ''/'' \<and> ?p ! j \<noteq> CHR ''.''"
      using e(2,3) by (metis nth_mem)
  qed
  define s0 where "s0 = extInit\<lparr>matchedSlash := False, endPos := int (length ?p)\<rparr>"
  have 1: "extLoop ?p (length ?p) extInit = extLoop ?p ?m s0"
    unfolding lp using extLoop_plain [OF plain, of extInit] e(1)
    by (simp add: s0_def extInit_def)
  have dot: "?p ! length base = CHR ''.''" by simp
  define s1 where "s1 = s0\<lparr>startDot := int (length base)\<rparr>"
  have 2: "extLoop ?p ?m s0 = extLoop ?p (length base) s1"
    using dot by (simp add: s0_def s1_def extInit_def Let_def)
  have lastc: "?p ! b' = last base"
    using lb b(1) by (simp add: nth_append last_conv_nth)
  define s2 where "s2 = s1\<lparr>preDotState := (if last base = CHR ''.'' then 1 else -1)\<rparr>"
  have 3: "extLoop ?p (length base) s1 = extLoop ?p b' s2"
    unfolding lb using lastc b(2)
    by (simp add: s0_def s1_def s2_def extInit_def Let_def lb)
  have fr: "startDot (extLoop ?p b' s2) = startDot s2 \<and> endPos (extLoop ?p b' s2) = endPos s2 \<and>
      preDotState (extLoop ?p b' s2) \<noteq> 0"
    by (rule extLoop_frozen) (simp_all add: s2_def s1_def s0_def)
  define r where "r = extLoop ?p (length ?p) extInit"
  have r: "startDot r = int (length base)" "endPos r = int (length ?p)" "preDotState r \<noteq> 0"
    using fr unfolding r_def 1 2 3 by (simp_all add: s2_def s1_def s0_def)
  have "extname ?p = strSlice ?p (startDot r) (endPos r)"
    using r e(1) unfolding extname_def r_def [symmetric] by (simp add: Let_def)
  also have "\<dots> = CHR ''.'' # e"
    by (simp add: r strSlice_def)
  finally show ?thesis .
qed

subsection \<open>The generated name\<close>

lemma hexDigits_literal: "set hexDigits = set ''0123456789abcdef''"
  by (simp add: hexDigits_def)

lemma storage_filename_good:
  assumes "length rb = 16"
  shows "goodSegment (storage_filename rb original)"
proof -
  let ?t = "toHex rb"
  have len: "length ?t = 32" using assms by (simp add: length_toHex)
  have ns: "CHR ''/'' \<notin> set ?t"
    using set_toHex [of rb] slash_notin_hexDigits by blast
  have "CHR ''/'' \<notin> set (?t @ extname original)"
    using ns extname_no_slash [of original] by simp
  moreover have "?t @ extname original \<noteq> [] \<and> ?t @ extname original \<noteq> ''.'' \<and>
      ?t @ extname original \<noteq> ''..''"
  proof -
    have ne: "length s < 32 \<Longrightarrow> ?t @ extname original \<noteq> s" for s
      using len by auto
    from ne [of "[]"] ne [of "''.''"] ne [of "''..''"] show ?thesis by simp
  qed
  ultimately show ?thesis
    by (simp add: goodSegment_def plainSegment_def storage_filename_def Let_def)
qed

section \<open>The two routes\<close>

lemmas upload_defs = post_media_def upload_single_def fileFilter_def handleFile_def writeStream_def
  post_media_handler_def query_insert_def handleError_def defaultErrorHandler_def
  storage_destination_def Let_def

lemmas delete_defs = delete_media_def unlink_def query_delete_def handleError_def quoted_def Let_def

text \<open>An upload changes no file but the one it stores.\<close>

lemma upload_files_changed:
  assumes "files (snd (post_media dirname e req w)) p \<noteq> files w p"
  shows "\<exists>file. part req = Some file \<and>
     p = path_join [uploadsDir dirname, storage_filename (randomBytes e) (originalname file)]"
  using assms
  by (auto simp: upload_defs split: option.splits if_splits diskFault.splits)

subsection \<open>The service on the example deployment\<close>

lemma ex_extname: "extname ''Photo.JPG'' = ''.JPG''"
  by code_simp

lemma ex_filename: "storage_filename exBytes ''Photo.JPG'' = ''000102030405060708090a0b0c0d0eff.JPG''"
  by code_simp

lemma ex_uploadsDir: "uploadsDir exDir = ''/srv/app/uploads''"
  by code_simp

lemma ex_upload_path:
  "path_join [''/srv/app/uploads'', ''000102030405060708090a0b0c0d0eff.JPG''] =
     ''/srv/app/uploads/000102030405060708090a0b0c0d0eff.JPG''"
  by code_simp

lemma ex_delete_paths:
  "path_join [''/srv/app/uploads'', ''a.png''] = ''/srv/app/uploads/a.png''"
  "path_join [''/srv/app/uploads'', ''locked.png''] = ''/srv/app/uploads/locked.png''"
  "path_join [''/srv/app/uploads'', ''nothing.png''] = ''/srv/app/uploads/nothing.png''"
  "path_join [''/srv/app/uploads'', ''../app.js''] = ''/srv/app/app.js''"
  by code_simp+

lemma ex_nul_path:
  "path_join [''/srv/app/uploads'', exNulName] = ''/srv/app/uploads/a'' @ CHR 0x00 # ''.png''"
  by code_simp

lemmas ex_defs = exRequest_def exPart_def exEnv_def allowedTypes_def templateValue_def
  ex_filename ex_uploadsDir ex_upload_path ex_delete_paths

lemma ex_upload_ok:
  "post_media exDir exEnv (exRequest (Some (exPart ''image/jpeg''))) exWorld =
    (\<lparr>status = 200,
      body = UploadJson ''File uploaded successfully'' ''000102030405060708090a0b0c0d0eff.JPG''
        ''/srv/app/uploads/000102030405060708090a0b0c0d0eff.JPG''
        ''http://localhost:3001/uploads/000102030405060708090a0b0c0d0eff.JPG''\<rparr>,
     exWorld\<lparr>files := (files exWorld)(''/srv/app/uploads/000102030405060708090a0b0c0d0eff.JPG'' \<mapsto> [7, 8]),
       rows := rows exWorld @ [(''000102030405060708090a0b0c0d0eff.JPG'',
          ''/srv/app/uploads/000102030405060708090a0b0c0d0eff.JPG'')],
       events := [FsWrite ''/srv/app/uploads/000102030405060708090a0b0c0d0eff.JPG'',
          DbInsert ''000102030405060708090a0b0c0d0eff.JPG''
            ''/srv/app/uploads/000102030405060708090a0b0c0d0eff.JPG'']\<rparr>)"
  by (simp add: upload_defs ex_defs, simp add: exWorld_def)

lemma ex_upload_disk_full:
  "post_media exDir (exEnv\<lparr>diskFault := Some (WriteFails ''ENOSPC'' 1)\<rparr>)
      (exRequest (Some (exPart ''image/jpeg''))) exWorld =
    (\<lparr>status = 500, body = DefaultErrorPage (Error ''ENOSPC'')\<rparr>,
     exWorld\<lparr>files := (files exWorld)(''/srv/app/uploads/000102030405060708090a0b0c0d0eff.JPG'' \<mapsto> [7]),
       events := [FsWriteFailed ''/srv/app/uploads/000102030405060708090a0b0c0d0eff.JPG'']\<rparr>)"
  by (simp add: upload_defs ex_defs, simp add: exWorld_def)

lemma ex_upload_no_host:
  "post_media exDir exEnv ((exRequest (Some (exPart ''image/jpeg'')))\<lparr>host := None\<rparr>) exWorld =
    (\<lparr>status = 200,
      body = UploadJson ''File uploaded successfully'' ''000102030405060708090a0b0c0d0eff.JPG''
        ''/srv/app/uploads/000102030405060708090a0b0c0d0eff.JPG''
        ''http://undefined/uploads/000102030405060708090a0b0c0d0eff.JPG''\<rparr>,
     exWorld\<lparr>files := (files exWorld)(''/srv/app/uploads/000102030405060708090a0b0c0d0eff.JPG'' \<mapsto> [7, 8]),
       rows := rows exWorld @ [(''000102030405060708090a0b0c0d0eff.JPG'',
          ''/srv/app/uploads/000102030405060708090a0b0c0d0eff.JPG'')],
       events := [FsWrite ''/srv/app/uploads/000102030405060708090a0b0c0d0eff.JPG'',
          DbInsert ''000102030405060708090a0b0c0d0eff.JPG''
            ''/srv/app/uploads/000102030405060708090a0b0c0d0eff.JPG'']\<rparr>)"
  by (simp add: upload_defs ex_defs, simp add: exWorld_def)

lemma ex_delete_absent:
  "delete_media exDir exEnv (Some ''nothing.png'') exWorld =
    (Inr \<lparr>status = 404,
      body = ErrorDetailsJson ''File not found''
        (''ENOENT: no such file or directory, unlink '' @ quoted ''/srv/app/uploads/nothing.png'')\<rparr>,
     exWorld\<lparr>events := [FsUnlinkFailed ''/srv/app/uploads/nothing.png'']\<rparr>)"
  by (simp add: delete_defs ex_defs, simp add: exWorld_def)

lemma ex_delete_db_down:
  "delete_media exDir (exEnv\<lparr>queryError := Some ''ECONNREFUSED''\<rparr>) (Some ''a.png'') exWorld =
    (Inr \<lparr>status = 500, body = ErrorDetailsJson ''Internal Server Error'' ''ECONNREFUSED''\<rparr>,
     exWorld\<lparr>files := (files exWorld)(''/srv/app/uploads/a.png'' := None),
       events := [FsUnlink ''/srv/app/uploads/a.png'', DbDeleteFailed ''a.png'']\<rparr>)"
  by (simp add: delete_defs ex_defs, simp add: exWorld_def)

lemma ex_delete_nul:
  "delete_media exDir exEnv (Some exNulName) exWorld =
    (Inl (ERR_INVALID_ARG_VALUE (''/srv/app/uploads/a'' @ CHR 0x00 # ''.png'')), exWorld)"
proof -
  have "exNulName \<noteq> []"
    by (simp add: exNulName_def)
  then show ?thesis
    by (simp add: delete_media_def unlink_def ex_uploadsDir ex_nul_path)
qed

section \<open>The claims of the specification\<close>

text \<open>
  An upload whose declared MIME type is not one of the six allowed types never reaches the
  storage: the world (files, table and storage actions) is left as it was. The answer is
  the 400 of the handler when multer skips the part for its empty file name, and otherwise
  the 500 of the final handler of Express, for the error of multer when the file is in
  another field and for the error of the filter when it is in the field \<^verbatim>\<open>file\<close>.
\<close>

lemma upload_disallowed_type:
  assumes "part req = Some file" and "mimetype file \<notin> set allowedTypes"
  shows "post_media dirname e req w =
          (if originalname file = [] then \<lparr>status = 400, body = ErrorJson ''No file uploaded''\<rparr>
           else if fieldname file \<noteq> ''file''
           then \<lparr>status = 500, body = DefaultErrorPage (MulterError ''Unexpected field'')\<rparr>
           else \<lparr>status = 500,
                  body = DefaultErrorPage
                    (Error ''Invalid file type. Allowed types: JPEG, PNG, MP4, AVI, MOV, MPEG.'')\<rparr>,
           w)"
  using assms by (simp add: upload_defs)

text \<open>
  C1 asks for a 400-class response when the declared MIME type is not allowed. The service
  rejects such an upload before any storage action, but not with a client error: for a
  \<^verbatim>\<open>text/plain\<close> file in the field \<^verbatim>\<open>file\<close> the error of the filter, whose message is
  written for the client, falls through to the final handler of Express and is answered
  500, where the other two validation failures of the service answer 400.
\<close>

theorem upload_rejected_type_answered_500:
  "mimetype (exPart ''text/plain'') \<notin> set allowedTypes \<and>
   post_media exDir exEnv (exRequest (Some (exPart ''text/plain''))) exWorld =
     (\<lparr>status = 500,
       body = DefaultErrorPage
         (Error ''Invalid file type. Allowed types: JPEG, PNG, MP4, AVI, MOV, MPEG.'')\<rparr>,
      exWorld)"
  by (simp add: upload_defs exRequest_def exPart_def allowedTypes_def)

text \<open>
  C2 asks that a delete whose name holds parent-directory segments never removes a file
  outside the content directory. The service does: with the name \<^verbatim>\<open>../app.js\<close> the joined
  path is the script beside the content directory, the file is removed and the answer is 200.
\<close>

theorem delete_traversal_leaves_uploads:
  "path_join [uploadsDir exDir, ''../app.js''] = ''/srv/app/app.js'' \<and>
   \<not> insideDir (uploadsDir exDir) ''/srv/app/app.js'' \<and>
   files exWorld ''/srv/app/app.js'' = Some [1, 2, 3] \<and>
   fst (delete_media exDir exEnv (Some ''../app.js'') exWorld) =
     Inr \<lparr>status = 200, body = MessageJson ''File deleted successfully''\<rparr> \<and>
   files (snd (delete_media exDir exEnv (Some ''../app.js'') exWorld)) ''/srv/app/app.js'' = None"
  by (simp add: delete_defs ex_defs insideDir_def, simp add: exWorld_def)

text \<open>
  C3: in every upload the write of the file comes before the insert of the row. The storage
  actions of one request are none, a failed write alone, or a completed write followed by
  the insert (done or failed); when the write fails no insert is attempted and the table is
  unchanged; and the table changes only by the one row whose file has been written.
\<close>

theorem upload_write_before_insert:
  assumes "post_media dirname e req w = (resp, w')"
  shows "\<exists>new. events w' = events w @ new \<and>
           (new = [] \<or> (\<exists>p. new = [FsWriteFailed p]) \<or>
            (\<exists>n p. new = [FsWrite p, DbInsert n p] \<or> new = [FsWrite p, DbInsertFailed n p])) \<and>
           (diskFault e \<noteq> None \<longrightarrow>
              (\<forall>n p. DbInsert n p \<notin> set new \<and> DbInsertFailed n p \<notin> set new) \<and> rows w' = rows w) \<and>
           (rows w' = rows w \<or>
            (\<exists>n p file. new = [FsWrite p, DbInsert n p] \<and> rows w' = rows w @ [(n, p)] \<and>
               part req = Some file \<and> files w' p = Some (content file)))"
  using assms by (auto simp: upload_defs split: option.splits if_splits diskFault.splits)

theorem upload_write_before_insert_witness:
  "events (snd (post_media exDir exEnv (exRequest (Some (exPart ''image/jpeg''))) exWorld)) =
     events exWorld @
     [FsWrite ''/srv/app/uploads/000102030405060708090a0b0c0d0eff.JPG'',
      DbInsert ''000102030405060708090a0b0c0d0eff.JPG''
        ''/srv/app/uploads/000102030405060708090a0b0c0d0eff.JPG''] \<and>
   diskFault (exEnv\<lparr>diskFault := Some (WriteFails ''ENOSPC'' 1)\<rparr>) \<noteq> None \<and>
   events (snd (post_media exDir (exEnv\<lparr>diskFault := Some (WriteFails ''ENOSPC'' 1)\<rparr>)
       (exRequest (Some (exPart ''image/jpeg''))) exWorld)) =
     events exWorld @ [FsWriteFailed ''/srv/app/uploads/000102030405060708090a0b0c0d0eff.JPG''] \<and>
   rows (snd (post_media exDir (exEnv\<lparr>diskFault := Some (WriteFails ''ENOSPC'' 1)\<rparr>)
       (exRequest (Some (exPart ''image/jpeg''))) exWorld)) = rows exWorld"
  using
    upload_write_before_insert [OF ex_upload_ok]
    upload_write_before_insert [OF ex_upload_disk_full]
  unfolding ex_upload_ok ex_upload_disk_full
  by (simp add: exWorld_def)

text \<open>
  C4: the storage name is the hexadecimal rendering of the sixteen random bytes, 32
  characters out of \<^verbatim>\<open>0123456789abcdef\<close> that determine the bytes, followed by the extension
  of the original name; the extension is a piece of the original name as it stands, it is
  empty or starts with the dot, and for a name \<open>base.ext\<close> it is \<open>.ext\<close> in the case
  it was written in.
\<close>

theorem storage_filename_token_extension:
  assumes "length rb = 16"
  shows "storage_filename rb original = toHex rb @ extname original \<and>
         length (toHex rb) = 32 \<and>
         set (toHex rb) \<subseteq> set ''0123456789abcdef'' \<and>
         (\<forall>rb'. toHex rb' = toHex rb \<longrightarrow> rb' = rb) \<and>
         (\<exists>a b. original = a @ extname original @ b) \<and>
         (extname original = [] \<or> hd (extname original) = CHR ''.'') \<and>
         (\<forall>base ext. original = base @ CHR ''.'' # ext \<and> base \<noteq> [] \<and> last base \<noteq> CHR ''/'' \<and>
            ext \<noteq> [] \<and> CHR ''.'' \<notin> set ext \<and> CHR ''/'' \<notin> set ext \<longrightarrow>
            extname original = CHR ''.'' # ext)"
proof (intro conjI)
  show "storage_filename rb original = toHex rb @ extname original"
    by (simp add: storage_filename_def)
  show "length (toHex rb) = 32"
    using assms by (simp add: length_toHex)
  show "set (toHex rb) \<subseteq> set ''0123456789abcdef''"
    using set_toHex [of rb] by (simp only: hexDigits_literal)
  show "\<forall>rb'. toHex rb' = toHex rb \<longrightarrow> rb' = rb"
    by (simp add: toHex_inject)
  show "\<exists>a b. original = a @ extname original @ b"
    by (rule extname_piece)
  show "extname original = [] \<or> hd (extname original) = CHR ''.''"
    by (rule extname_dot)
  show "\<forall>base ext. original = base @ CHR ''.'' # ext \<and> base \<noteq> [] \<and> last base \<noteq> CHR ''/'' \<and>
            ext \<noteq> [] \<and> CHR ''.'' \<notin> set ext \<and> CHR ''/'' \<notin> set ext \<longrightarrow>
            extname original = CHR ''.'' # ext"
    by (auto simp: extname_simple)
qed

theorem storage_filename_token_extension_witness:
  "length exBytes = 16 \<and>
   storage_filename exBytes ''Photo.JPG'' = ''000102030405060708090a0b0c0d0eff.JPG'' \<and>
   ''Photo.JPG'' = ''Photo'' @ CHR ''.'' # ''JPG'' \<and> ''Photo'' \<noteq> [] \<and> last ''Photo'' \<noteq> CHR ''/'' \<and>
   ''JPG'' \<noteq> [] \<and> CHR ''.'' \<notin> set ''JPG'' \<and> CHR ''/'' \<notin> set ''JPG'' \<and>
   extname ''Photo.JPG'' = ''.JPG'' \<and> length (toHex exBytes) = 32"
proof -
  have len: "length exBytes = 16"
    by (simp add: exBytes_def)
  from storage_filename_token_extension [OF len, of "''Photo.JPG''"] len show ?thesis
    by (simp add: ex_filename ex_extname)
qed

text \<open>
  When \<^verbatim>\<open>fs.unlink\<close> reports to its callback that the removal failed, because the file is
  absent or the system refuses, the answer is 404, no query is made, and table and files
  are unchanged.
\<close>

lemma delete_unlink_reported:
  assumes "param = Some name" and "name \<noteq> []"
    and "CHR 0x00 \<notin> set (path_join [uploadsDir dirname, name])"
    and "files w (path_join [uploadsDir dirname, name]) = None \<or>
         denied w (path_join [uploadsDir dirname, name])"
    and "delete_media dirname e param w = (resp, w')"
  shows "(\<exists>d. resp = Inr \<lparr>status = 404, body = ErrorDetailsJson ''File not found'' d\<rparr>) \<and>
         rows w' = rows w \<and> files w' = files w \<and>
         events w' = events w @ [FsUnlinkFailed (path_join [uploadsDir dirname, name])]"
  using assms by (auto simp: delete_defs split: if_splits)

text \<open>When the joined path holds a NUL byte, the handler sends nothing and changes nothing.\<close>

lemma delete_nul_throws:
  assumes "name \<noteq> []" and "CHR 0x00 \<in> set (path_join [uploadsDir dirname, name])"
  shows "delete_media dirname e (Some name) w =
           (Inl (ERR_INVALID_ARG_VALUE (path_join [uploadsDir dirname, name])), w)"
  using assms by (simp add: delete_defs)

text \<open>
  C5 asks that every delete whose removal fails, the target being absent or inaccessible, is
  answered 404 and leaves the table alone. For the name \<^verbatim>\<open>a%00.png\<close> no such file exists and
  the removal fails, but \<^verbatim>\<open>fs.unlink\<close> throws instead of calling back: the exception leaves
  the handler, and no response is sent, the 404 of the callback included. The table is
  untouched there too.
\<close>

theorem delete_nul_name_sends_no_response:
  "exNulName \<noteq> [] \<and>
   files exWorld (path_join [uploadsDir exDir, exNulName]) = None \<and>
   delete_media exDir exEnv (Some exNulName) exWorld =
     (Inl (ERR_INVALID_ARG_VALUE (''/srv/app/uploads/a'' @ CHR 0x00 # ''.png'')), exWorld)"
  by (simp add: ex_delete_nul ex_uploadsDir ex_nul_path, simp add: exWorld_def exNulName_def)

text \<open>
  C6: the delete query is attempted only after the removal of the file has succeeded; and
  when the removal succeeds (the path is accepted, the file is there and the system does
  not refuse) and the query fails, the answer is the 500 of \<^verbatim>\<open>handleError\<close>, the file is
  gone and the table is as it was.
\<close>

theorem delete_unlink_before_query:
  assumes "delete_media dirname e param w = (resp, w')"
  shows "(\<exists>new. events w' = events w @ new \<and>
            (new = [] \<or> (\<exists>p. new = [FsUnlinkFailed p]) \<or>
             (\<exists>p n. new = [FsUnlink p, DbDelete n] \<or> new = [FsUnlink p, DbDeleteFailed n]))) \<and>
         (\<forall>name m. param = Some name \<and> name \<noteq> [] \<and>
            CHR 0x00 \<notin> set (path_join [uploadsDir dirname, name]) \<and>
            files w (path_join [uploadsDir dirname, name]) \<noteq> None \<and>
            \<not> denied w (path_join [uploadsDir dirname, name]) \<and>
            queryError e = Some m \<longrightarrow>
            resp = Inr \<lparr>status = 500, body = ErrorDetailsJson ''Internal Server Error'' m\<rparr> \<and>
            files w' (path_join [uploadsDir dirname, name]) = None \<and> rows w' = rows w)"
  using assms by (auto simp: delete_defs split: option.splits if_splits)

theorem delete_unlink_before_query_witness:
  "CHR 0x00 \<notin> set (path_join [uploadsDir exDir, ''a.png'']) \<and>
   files exWorld (path_join [uploadsDir exDir, ''a.png'']) \<noteq> None \<and>
   \<not> denied exWorld (path_join [uploadsDir exDir, ''a.png'']) \<and>
   queryError (exEnv\<lparr>queryError := Some ''ECONNREFUSED''\<rparr>) = Some ''ECONNREFUSED'' \<and>
   fst (delete_media exDir (exEnv\<lparr>queryError := Some ''ECONNREFUSED''\<rparr>) (Some ''a.png'') exWorld) =
     Inr \<lparr>status = 500, body = ErrorDetailsJson ''Internal Server Error'' ''ECONNREFUSED''\<rparr> \<and>
   events (snd (delete_media exDir (exEnv\<lparr>queryError := Some ''ECONNREFUSED''\<rparr>) (Some ''a.png'') exWorld)) =
     [FsUnlink ''/srv/app/uploads/a.png'', DbDeleteFailed ''a.png''] \<and>
   files (snd (delete_media exDir (exEnv\<lparr>queryError := Some ''ECONNREFUSED''\<rparr>) (Some ''a.png'') exWorld))
     ''/srv/app/uploads/a.png'' = None \<and>
   rows (snd (delete_media exDir (exEnv\<lparr>queryError := Some ''ECONNREFUSED''\<rparr>) (Some ''a.png'') exWorld)) =
     rows exWorld"
  using delete_unlink_before_query [OF ex_delete_db_down]
  unfolding ex_delete_db_down ex_uploadsDir ex_delete_paths
  by (simp add: exWorld_def)

text \<open>
  C7: an upload request without a file part is answered 400 \<^verbatim>\<open>No file uploaded\<close>, and
  nothing is stored: no file, no row, no storage action.
\<close>

theorem upload_no_payload:
  assumes "part req = None"
  shows "post_media dirname e req w = (\<lparr>status = 400, body = ErrorJson ''No file uploaded''\<rparr>, w)"
  using assms by (simp add: upload_defs)

theorem upload_no_payload_witness:
  "part (exRequest None) = None \<and>
   post_media exDir exEnv (exRequest None) exWorld =
     (\<lparr>status = 400, body = ErrorJson ''No file uploaded''\<rparr>, exWorld)"
  using upload_no_payload [of "exRequest None" exDir exEnv exWorld]
  by (simp add: exRequest_def)

text \<open>
  C8: an upload succeeds, and is answered 200, when the request holds a named file of an
  allowed type in the field \<^verbatim>\<open>file\<close>, the path to write is accepted, and neither the write
  nor the insert fails. Every answer 200 is of this kind and carries the message and the
  file object: the name is the generated storage name, the path is the path the file was
  written to and the row holds, and the URL is the protocol, \<^verbatim>\<open>://\<close>, the host header of
  the request, \<^verbatim>\<open>/uploads/\<close> and the name (a request without that header gets the text
  \<^verbatim>\<open>undefined\<close> in its place).
\<close>

theorem upload_success_response:
  assumes "post_media dirname e req w = (resp, w')"
  shows "(\<forall>file. part req = Some file \<and> originalname file \<noteq> [] \<and> fieldname file = ''file'' \<and>
            mimetype file \<in> set allowedTypes \<and> diskFault e = None \<and> queryError e = None \<and>
            CHR 0x00 \<notin> set (path_join [uploadsDir dirname,
              storage_filename (randomBytes e) (originalname file)]) \<longrightarrow>
            status resp = 200) \<and>
         (status resp = 200 \<longrightarrow>
            (\<exists>file name url. part req = Some file \<and> originalname file \<noteq> [] \<and>
               fieldname file = ''file'' \<and> mimetype file \<in> set allowedTypes \<and>
               diskFault e = None \<and> queryError e = None \<and>
               name = storage_filename (randomBytes e) (originalname file) \<and>
               resp = \<lparr>status = 200,
                        body = UploadJson ''File uploaded successfully'' name
                          (path_join [uploadsDir dirname, name]) url\<rparr> \<and>
               files w' (path_join [uploadsDir dirname, name]) = Some (content file) \<and>
               rows w' = rows w @ [(name, path_join [uploadsDir dirname, name])] \<and>
               (\<forall>h. host req = Some h \<longrightarrow> url = protocol req @ ''://'' @ h @ ''/uploads/'' @ name) \<and>
               (host req = None \<longrightarrow> url = protocol req @ ''://undefined/uploads/'' @ name)))"
  using assms
  by (auto simp: upload_defs templateValue_def split: option.splits if_splits diskFault.splits)

theorem upload_success_response_witness:
  "part (exRequest (Some (exPart ''image/jpeg''))) = Some (exPart ''image/jpeg'') \<and>
   originalname (exPart ''image/jpeg'') \<noteq> [] \<and> fieldname (exPart ''image/jpeg'') = ''file'' \<and>
   mimetype (exPart ''image/jpeg'') \<in> set allowedTypes \<and>
   diskFault exEnv = None \<and> queryError exEnv = None \<and>
   CHR 0x00 \<notin> set (path_join [uploadsDir exDir,
     storage_filename (randomBytes exEnv) (originalname (exPart ''image/jpeg''))]) \<and>
   host (exRequest (Some (exPart ''image/jpeg''))) = Some ''localhost:3001'' \<and>
   fst (post_media exDir exEnv (exRequest (Some (exPart ''image/jpeg''))) exWorld) =
     \<lparr>status = 200,
      body = UploadJson ''File uploaded successfully'' ''000102030405060708090a0b0c0d0eff.JPG''
        ''/srv/app/uploads/000102030405060708090a0b0c0d0eff.JPG''
        ''http://localhost:3001/uploads/000102030405060708090a0b0c0d0eff.JPG''\<rparr> \<and>
   host ((exRequest (Some (exPart ''image/jpeg'')))\<lparr>host := None\<rparr>) = None \<and>
   body (fst (post_media exDir exEnv ((exRequest (Some (exPart ''image/jpeg'')))\<lparr>host := None\<rparr>)
       exWorld)) =
     UploadJson ''File uploaded successfully'' ''000102030405060708090a0b0c0d0eff.JPG''
       ''/srv/app/uploads/000102030405060708090a0b0c0d0eff.JPG''
       ''http://undefined/uploads/000102030405060708090a0b0c0d0eff.JPG''"
proof -
  have hyps: "part (exRequest (Some (exPart ''image/jpeg''))) = Some (exPart ''image/jpeg'') \<and>
      originalname (exPart ''image/jpeg'') \<noteq> [] \<and> fieldname (exPart ''image/jpeg'') = ''file'' \<and>
      mimetype (exPart ''image/jpeg'') \<in> set allowedTypes \<and>
      diskFault exEnv = None \<and> queryError exEnv = None \<and>
      CHR 0x00 \<notin> set (path_join [uploadsDir exDir,
        storage_filename (randomBytes exEnv) (originalname (exPart ''image/jpeg''))]) \<and>
      host (exRequest (Some (exPart ''image/jpeg''))) = Some ''localhost:3001'' \<and>
      host ((exRequest (Some (exPart ''image/jpeg'')))\<lparr>host := None\<rparr>) = None"
    by (simp add: ex_defs)
  from upload_success_response [OF ex_upload_ok] upload_success_response [OF ex_upload_no_host] hyps
  show ?thesis
    unfolding ex_upload_ok ex_upload_no_host by simp
qed

text \<open>
  C9: a delete request whose name is absent or empty is answered 400
  \<^verbatim>\<open>Filename is required\<close>, before any action on files or table.
\<close>

theorem delete_missing_name:
  assumes "param = None \<or> param = Some []"
  shows "delete_media dirname e param w =
           (Inr \<lparr>status = 400, body = ErrorJson ''Filename is required''\<rparr>, w)"
  using assms by (auto simp: delete_defs)

theorem delete_missing_name_witness:
  "delete_media exDir exEnv None exWorld =
     (Inr \<lparr>status = 400, body = ErrorJson ''Filename is required''\<rparr>, exWorld) \<and>
   delete_media exDir exEnv (Some []) exWorld =
     (Inr \<lparr>status = 400, body = ErrorJson ''Filename is required''\<rparr>, exWorld)"
  using delete_missing_name [of None exDir exEnv exWorld]
    delete_missing_name [of "Some []" exDir exEnv exWorld]
  by simp

text \<open>
  C10: a storage name holds no path separator, whatever the original name; joined to the
  content directory it names a file directly in that directory, and every file an upload
  creates or changes is such a file.
\<close>

theorem storage_filename_inside_uploads:
  assumes "length (randomBytes e) = 16" and "dirname \<noteq> []" and "hd dirname = CHR ''/''"
  shows "CHR ''/'' \<notin> set (storage_filename (randomBytes e) original) \<and>
         path_join [uploadsDir dirname, storage_filename (randomBytes e) original] =
           uploadsDir dirname @ CHR ''/'' # storage_filename (randomBytes e) original \<and>
         (\<forall>req w p. files (snd (post_media dirname e req w)) p \<noteq> files w p \<longrightarrow>
            (\<exists>name. p = uploadsDir dirname @ CHR ''/'' # name \<and> CHR ''/'' \<notin> set name))"
proof -
  have good: "goodSegment (storage_filename (randomBytes e) orig)" for orig :: string
    using assms(1) by (rule storage_filename_good)
  have abs: "absNormal (uploadsDir dirname)"
    using assms(2,3) by (rule absNormal_uploadsDir)
  have join: "path_join [uploadsDir dirname, storage_filename (randomBytes e) orig] =
      uploadsDir dirname @ CHR ''/'' # storage_filename (randomBytes e) orig" for orig
    using abs good [of orig] by (intro path_join_plain) (simp_all add: goodSegment_def)
  have "\<exists>name. p = uploadsDir dirname @ CHR ''/'' # name \<and> CHR ''/'' \<notin> set name"
    if "files (snd (post_media dirname e req w)) p \<noteq> files w p" for req w p
  proof -
    from upload_files_changed [OF that] obtain fl :: filePart where
      "p = path_join [uploadsDir dirname, storage_filename (randomBytes e) (originalname fl)]"
      by auto
    then show ?thesis
      using join good by (auto simp: goodSegment_def)
  qed
  then show ?thesis
    using good [of original] join [of original] by (simp add: goodSegment_def)
qed

theorem storage_filename_inside_uploads_witness:
  "length (randomBytes exEnv) = 16 \<and> exDir \<noteq> [] \<and> hd exDir = CHR ''/'' \<and>
   CHR ''/'' \<notin> set (storage_filename (randomBytes exEnv) ''../../etc/Photo.JPG'') \<and>
   files (snd (post_media exDir exEnv (exRequest (Some (exPart ''image/jpeg''))) exWorld))
     ''/srv/app/uploads/000102030405060708090a0b0c0d0eff.JPG'' \<noteq>
   files exWorld ''/srv/app/uploads/000102030405060708090a0b0c0d0eff.JPG'' \<and>
   (\<exists>name. ''/srv/app/uploads/000102030405060708090a0b0c0d0eff.JPG'' = uploadsDir exDir @ CHR ''/'' # name \<and>
      CHR ''/'' \<notin> set name)"
proof -
  have len: "length (randomBytes exEnv) = 16"
    by (simp add: exEnv_def exBytes_def)
  have dir: "exDir \<noteq> []" "hd exDir = CHR ''/''"
    by (simp_all add: exDir_def)
  have changed: "files (snd (post_media exDir exEnv (exRequest (Some (exPart ''image/jpeg''))) exWorld))
     ''/srv/app/uploads/000102030405060708090a0b0c0d0eff.JPG'' \<noteq>
   files exWorld ''/srv/app/uploads/000102030405060708090a0b0c0d0eff.JPG''"
    by (simp add: ex_upload_ok, simp add: exWorld_def)
  from storage_filename_inside_uploads [OF len dir, of "''../../etc/Photo.JPG''"] changed
  have "CHR ''/'' \<notin> set (storage_filename (randomBytes exEnv) ''../../etc/Photo.JPG'') \<and>
    (\<exists>name. ''/srv/app/uploads/000102030405060708090a0b0c0d0eff.JPG'' = uploadsDir exDir @ CHR ''/'' # name \<and>
      CHR ''/'' \<notin> set name)"
    by blast
  with len dir changed show ?thesis
    by blast
qed

end
